theory Spec2Isabelle
  imports Main "HOL-Library.AList"
begin

section \<open>JavaScript strings\<close>

text \<open>
  A string is a list of characters. The characters are the code points U+0000 to U+00FF
  (\<open>char\<close> has exactly these 256 values), on which a JavaScript string has one UTF-16
  code unit per character, so that \<open>.length\<close> is the length of the list. Every
  definition of this section is the built-in of the same name restricted to that range.
\<close>

text \<open>
  White space and line terminators of ECMAScript below U+0100: TAB, LF, VT, FF, CR,
  SPACE and NO-BREAK SPACE. This is the class \<open>\s\<close> of a regular expression and the
  set \<open>String.prototype.trim\<close> strips.
\<close>

definition isWhiteSpace :: "char \<Rightarrow> bool" where
  "isWhiteSpace c =
     (c = CHR 0x09 \<or> c = CHR 0x0A \<or> c = CHR 0x0B \<or> c = CHR 0x0C \<or> c = CHR 0x0D
      \<or> c = CHR 0x20 \<or> c = CHR 0xA0)"

text \<open>The class \<open>\d\<close>: the digits 0 to 9.\<close>

definition isDigit :: "char \<Rightarrow> bool" where
  "isDigit c = (let n = (of_char c :: nat) in 48 \<le> n \<and> n \<le> 57)"

text \<open>The class \<open>[a-zA-Z]\<close>.\<close>

definition isLetter :: "char \<Rightarrow> bool" where
  "isLetter c = (let n = (of_char c :: nat) in (97 \<le> n \<and> n \<le> 122) \<or> (65 \<le> n \<and> n \<le> 90))"

text \<open>The class \<open>[a-zA-Z0-9]\<close>, whose complement \<open>analyzeString\<close> removes.\<close>

definition isAlphaNumeric :: "char \<Rightarrow> bool" where
  "isAlphaNumeric c = (isLetter c \<or> isDigit c)"

text \<open>
  The characters \<open>toLowerCase\<close> changes: A to Z, and the accented capitals U+00C0 to
  U+00DE without the multiplication sign U+00D7. Each maps to the character 32 places up.
\<close>

definition isUpperCase :: "char \<Rightarrow> bool" where
  "isUpperCase c =
     (let n = (of_char c :: nat) in (65 \<le> n \<and> n \<le> 90) \<or> (192 \<le> n \<and> n \<le> 222 \<and> n \<noteq> 215))"

definition toLowerCase_char :: "char \<Rightarrow> char" where
  "toLowerCase_char c = (if isUpperCase c then char_of (of_char c + 32 :: nat) else c)"

definition toLowerCase :: "string \<Rightarrow> string" where
  "toLowerCase s = map toLowerCase_char s"

definition trimStart :: "string \<Rightarrow> string" where
  "trimStart s = dropWhile isWhiteSpace s"

definition trimEnd :: "string \<Rightarrow> string" where
  "trimEnd s = rev (dropWhile isWhiteSpace (rev s))"

definition trim :: "string \<Rightarrow> string" where
  "trim s = trimEnd (trimStart s)"

text \<open>\<open>s.replace(/C/g, "")\<close> for a character class \<open>C\<close>: every character of the class is removed.\<close>

definition remove_all :: "(char \<Rightarrow> bool) \<Rightarrow> string \<Rightarrow> string" where
  "remove_all C s = filter (\<lambda>c. \<not> C c) s"

text \<open>\<open>s.split("")\<close>, \<open>Array.prototype.reverse\<close> and \<open>join("")\<close>.\<close>

definition split_chars :: "string \<Rightarrow> string list" where
  "split_chars s = map (\<lambda>c. [c]) s"

definition reverse :: "'a list \<Rightarrow> 'a list" where
  "reverse xs = fold (\<lambda>x acc. x # acc) xs []"

definition join :: "string list \<Rightarrow> string" where
  "join xs = concat xs"

text \<open>
  \<open>s.split(/\s+/)\<close>: the pieces of \<open>s\<close> between its maximal runs of white space; a run at
  the start or at the end of \<open>s\<close> leaves an empty piece there, and the empty string gives
  one empty piece. \<open>cur\<close> is the piece being read.
\<close>

function split_ws_from :: "string \<Rightarrow> string \<Rightarrow> string list" where
  "split_ws_from cur [] = [cur]"
| "split_ws_from cur (c # cs) =
     (if isWhiteSpace c then cur # split_ws_from [] (dropWhile isWhiteSpace cs)
      else split_ws_from (cur @ [c]) cs)"
  by pat_completeness auto
termination
  by (relation "measure (\<lambda>(cur, s). length s)") (auto simp: length_dropWhile_le less_Suc_eq_le)

definition split_ws :: "string \<Rightarrow> string list" where
  "split_ws s = split_ws_from [] s"

text \<open>
  \<open>new Set(s)\<close>: the characters of \<open>s\<close> in the order of their first occurrence, each
  once; \<open>.size\<close> is the length of that list.
\<close>

definition new_Set :: "'a list \<Rightarrow> 'a list" where
  "new_Set xs = fold (\<lambda>x acc. if x \<in> set acc then acc else acc @ [x]) xs []"

section \<open>The analyzer\<close>

text \<open>
  The object \<open>analyzeString\<close> returns. \<open>length_prop\<close> is its field \<open>length\<close>.
  \<open>character_frequency_map\<close> is a plain object used as a dictionary: an association list,
  read with \<open>map_of\<close> and written with \<open>AList.update\<close>, which replaces the value of a
  key that is present and adds a key that is not at the end. (JavaScript enumerates the
  keys that are digits before the others; the order of the list does not model that.)
\<close>

record properties =
  length_prop :: nat
  is_palindrome :: bool
  unique_characters :: nat
  word_count :: nat
  sha256_hash :: string
  character_frequency_map :: "(char \<times> nat) list"

text \<open>One turn of the loop over the characters: \<open>cf[char] = (cf[char] || 0) + 1\<close> unless
  the character is the space.\<close>

definition count_char :: "char \<Rightarrow> (char \<times> nat) list \<Rightarrow> (char \<times> nat) list" where
  "count_char char cf =
     (if char \<noteq> CHR '' ''
      then AList.update char ((case map_of cf char of None \<Rightarrow> 0 | Some n \<Rightarrow> n) + 1) cf
      else cf)"

text \<open>
  \<open>analyzeString\<close> of \<open>string.controllers.js\<close>. \<open>sha256\<close> stands for
  \<open>crypto.createHash("sha256").update(_).digest("hex")\<close>, a function of the platform.
\<close>

definition analyzeString :: "(string \<Rightarrow> string) \<Rightarrow> string \<Rightarrow> properties" where
  "analyzeString sha256 inputString =
     (let trimmedString = trim inputString;
          cleanStr = toLowerCase (remove_all (\<lambda>c. \<not> isAlphaNumeric c) trimmedString);
          len = length trimmedString;
          isPalindrome = (length cleanStr > 0 \<and> cleanStr = join (reverse (split_chars cleanStr)));
          uniqueCharacters = length (new_Set (remove_all isWhiteSpace (toLowerCase trimmedString)));
          wordCount = (if length trimmedString = 0 then 0 else length (split_ws (trim trimmedString)));
          sha256Hash = sha256 trimmedString;
          characterFrequency = fold count_char (toLowerCase trimmedString) []
      in \<lparr> length_prop = len,
           is_palindrome = isPalindrome,
           unique_characters = uniqueCharacters,
           word_count = wordCount,
           sha256_hash = sha256Hash,
           character_frequency_map = characterFrequency \<rparr>)"

section \<open>Regular expressions\<close>

text \<open>
  The regular expressions of \<open>parseNaturalLanguageQuery\<close> use literals, character
  classes, \<open>+\<close> on a class, \<open>?\<close>, sequence, alternation and capturing groups.
  \<open>Seqs\<close> and \<open>Alts\<close> write a sequence and an alternation of several parts.
\<close>

datatype regex =
    Lit string
  | Class "char \<Rightarrow> bool"
  | Plus "char \<Rightarrow> bool"
  | Opt regex
  | Seq regex regex
  | Alt regex regex
  | Group regex

fun Seqs :: "regex list \<Rightarrow> regex" where
  "Seqs [] = Lit []"
| "Seqs [r] = r"
| "Seqs (r # rs) = Seq r (Seqs rs)"

fun Alts :: "regex list \<Rightarrow> regex" where
  "Alts [] = Class (\<lambda>c. False)"
| "Alts [r] = r"
| "Alts (r # rs) = Alt r (Alts rs)"

text \<open>The rest of \<open>s\<close> after the literal \<open>p\<close>, when \<open>s\<close> starts with it.\<close>

fun strip_prefix :: "string \<Rightarrow> string \<Rightarrow> string option" where
  "strip_prefix [] s = Some s"
| "strip_prefix (p # ps) [] = None"
| "strip_prefix (p # ps) (c # cs) = (if p = c then strip_prefix ps cs else None)"

text \<open>
  \<open>C+\<close> is greedy: the rests of \<open>s\<close> after each non-empty run of class characters at
  its start, the longest run first.
\<close>

fun plus_rests :: "(char \<Rightarrow> bool) \<Rightarrow> string \<Rightarrow> string list" where
  "plus_rests C [] = []"
| "plus_rests C (c # cs) = (if C c then plus_rests C cs @ [cs] else [])"

text \<open>
  A backtracking matcher as a list of successes. A state is the groups captured so far and
  the input still to read; \<open>run r st\<close> lists the states after every way \<open>r\<close> matches at
  the start of the input, in the order in which backtracking tries them. Groups are
  numbered in the order they close, which is the order of their opening parentheses in
  every expression below (none is nested in another).
\<close>

type_synonym mstate = "string list \<times> string"

fun run :: "regex \<Rightarrow> mstate \<Rightarrow> mstate list" where
  "run (Lit p) (caps, s) = (case strip_prefix p s of Some rest \<Rightarrow> [(caps, rest)] | None \<Rightarrow> [])"
| "run (Class C) (caps, s) = (case s of [] \<Rightarrow> [] | c # cs \<Rightarrow> if C c then [(caps, cs)] else [])"
| "run (Plus C) (caps, s) = map (\<lambda>rest. (caps, rest)) (plus_rests C s)"
| "run (Opt r) st = run r st @ [st]"
| "run (Seq r1 r2) st = concat (map (run r2) (run r1 st))"
| "run (Alt r1 r2) st = run r1 st @ run r2 st"
| "run (Group r) (caps, s) =
     map (\<lambda>(caps', rest). (caps' @ [take (length s - length rest) s], rest)) (run r (caps, s))"

text \<open>
  \<open>s.match(r)\<close> for an expression without the \<open>g\<close> flag: the first match at the
  leftmost position that has one, as the array of the matched text followed by the groups;
  \<open>None\<close> is \<open>null\<close>.
\<close>

fun js_match :: "regex \<Rightarrow> string \<Rightarrow> string list option" where
  "js_match r [] = (case run r ([], []) of [] \<Rightarrow> None | (caps, rest) # _ \<Rightarrow> Some ([] # caps))"
| "js_match r (c # cs) =
     (case run r ([], c # cs) of
        [] \<Rightarrow> js_match r cs
      | (caps, rest) # _ \<Rightarrow> Some (take (length (c # cs) - length rest) (c # cs) # caps))"

text \<open>An expression without a capturing group.\<close>

fun groupless :: "regex \<Rightarrow> bool" where
  "groupless (Lit p) = True"
| "groupless (Class C) = True"
| "groupless (Plus C) = True"
| "groupless (Opt r) = groupless r"
| "groupless (Seq r1 r2) = (groupless r1 \<and> groupless r2)"
| "groupless (Alt r1 r2) = (groupless r1 \<and> groupless r2)"
| "groupless (Group r) = False"

section \<open>Numbers\<close>

text \<open>
  \<open>parseInt\<close> on a string that starts with a digit reads its longest prefix of digits in
  base ten (the translator applies it to matches of \<open>\d+\<close> only), and
  \<open>Number.prototype.toString\<close> prints an integer in base ten. Numbers are integers here:
  this is the arithmetic of the source as long as every value is below \<open>2^53\<close>, which
  holds when no number of the query has more than 15 digits (\<open>exact_numerals\<close>).
\<close>

definition digit_value :: "char \<Rightarrow> nat" where
  "digit_value c = of_char c - 48"

definition parseInt :: "string \<Rightarrow> int" where
  "parseInt s = int (foldl (\<lambda>n c. 10 * n + digit_value c) 0 (takeWhile isDigit s))"

definition digit_char :: "nat \<Rightarrow> char" where
  "digit_char d = ''0123456789'' ! d"

fun digits_of :: "nat \<Rightarrow> string" where
  "digits_of n = (if n < 10 then [digit_char n] else digits_of (n div 10) @ [digit_char (n mod 10)])"

declare digits_of.simps [simp del]

definition toString :: "int \<Rightarrow> string" where
  "toString i = (if i < 0 then CHR ''-'' # digits_of (nat (- i)) else digits_of (nat i))"



section \<open>The translator\<close>

text \<open>
  \<open>filters\<close> is a plain object whose keys are filter names and whose values are strings:
  an association list in insertion order. \<open>filters.k = v\<close> is \<open>AList.update k v filters\<close>,
  \<open>filters.k\<close> is \<open>map_of filters k\<close>, and \<open>Object.keys(filters).length\<close> is its length.
\<close>

type_synonym filters = "(string \<times> string) list"

text \<open>The regular expressions of \<open>parseNaturalLanguageQuery\<close>, in the order of the source.\<close>

definition palindrome_rx :: regex where
  "palindrome_rx = Alts [Lit ''palindrome'', Lit ''palindromic'']"

definition one_word_rx :: regex where
  "one_word_rx = Alts [Lit ''single word'', Lit ''one word'', Lit ''1 word'']"

definition two_words_rx :: regex where
  "two_words_rx = Alts [Lit ''two words'', Lit ''2 words'']"

definition three_words_rx :: regex where
  "three_words_rx = Alts [Lit ''three words'', Lit ''3 words'']"

definition exactWords_rx :: regex where
  "exactWords_rx = Seqs [Group (Plus isDigit), Plus isWhiteSpace, Lit ''word'', Opt (Lit ''s'')]"

definition longer_rx :: regex where
  "longer_rx = Seqs [Lit ''longer than '', Group (Plus isDigit)]"

definition shorter_rx :: regex where
  "shorter_rx = Seqs [Lit ''shorter than '', Group (Plus isDigit)]"

definition atLeast_rx :: regex where
  "atLeast_rx = Seqs [Lit ''at least '', Group (Plus isDigit)]"

definition atMost_rx :: regex where
  "atMost_rx = Seqs [Lit ''at most '', Group (Plus isDigit)]"

definition moreThan_rx :: regex where
  "moreThan_rx = Seqs [Lit ''more than '', Group (Plus isDigit)]"

definition lessThan_rx :: regex where
  "lessThan_rx = Seqs [Lit ''less than '', Group (Plus isDigit)]"

definition between_rx :: regex where
  "between_rx = Seqs [Lit ''between '', Group (Plus isDigit), Lit '' and '', Group (Plus isDigit)]"

definition isQuote :: "char \<Rightarrow> bool" where
  "isQuote c = (c = CHR 0x27 \<or> c = CHR 0x22)"

definition charMatch_rx :: regex where
  "charMatch_rx =
     Seqs [Alts [Seq (Lit ''contain'') (Opt (Lit ''s'')), Lit ''with'', Lit ''having'',
                 Lit ''include'', Seq (Lit ''include'') (Opt (Lit ''s''))],
           Plus isWhiteSpace,
           Alts [Lit ''letter'', Lit ''character'', Lit ''the letter'', Lit ''the character''],
           Plus isWhiteSpace,
           Opt (Class isQuote), Group (Class isLetter), Opt (Class isQuote)]"

definition vowel_rx :: regex where
  "vowel_rx =
     Alts [Seqs [Lit ''contain'', Opt (Lit ''s''), Plus isWhiteSpace,
                 Opt (Seq (Lit ''a'') (Plus isWhiteSpace)), Lit ''vowel''],
           Seqs [Lit ''with'', Plus isWhiteSpace,
                 Opt (Seq (Lit ''a'') (Plus isWhiteSpace)), Lit ''vowel''],
           Seqs [Lit ''having'', Plus isWhiteSpace,
                 Opt (Seq (Lit ''a'') (Plus isWhiteSpace)), Lit ''vowel'']]"

definition consonant_rx :: regex where
  "consonant_rx =
     Alts [Seqs [Lit ''contain'', Opt (Lit ''s''), Plus isWhiteSpace,
                 Opt (Seq (Lit ''a'') (Plus isWhiteSpace)), Lit ''consonant''],
           Seqs [Lit ''with'', Plus isWhiteSpace,
                 Opt (Seq (Lit ''a'') (Plus isWhiteSpace)), Lit ''consonant'']]"

text \<open>
  The statements of \<open>parseNaturalLanguageQuery\<close>, one definition for each \<open>if\<close> of the
  source: the filters after the statement, from the lower-cased query and the filters
  before it. \<open>m ! 1\<close> is the first group of the match \<open>m\<close>; a primed name is the
  source's name without the prime.
\<close>

definition palindrome_rule :: "string \<Rightarrow> filters \<Rightarrow> filters" where
  "palindrome_rule lowerQuery filters =
     (case js_match palindrome_rx lowerQuery of
        None \<Rightarrow> filters
      | Some m \<Rightarrow> AList.update ''is_palindrome'' ''true'' filters)"

definition one_word_rule :: "string \<Rightarrow> filters \<Rightarrow> filters" where
  "one_word_rule lowerQuery filters =
     (case js_match one_word_rx lowerQuery of
        None \<Rightarrow> filters
      | Some m \<Rightarrow> AList.update ''word_count'' ''1'' filters)"

definition two_words_rule :: "string \<Rightarrow> filters \<Rightarrow> filters" where
  "two_words_rule lowerQuery filters =
     (case js_match two_words_rx lowerQuery of
        None \<Rightarrow> filters
      | Some m \<Rightarrow> AList.update ''word_count'' ''2'' filters)"

definition three_words_rule :: "string \<Rightarrow> filters \<Rightarrow> filters" where
  "three_words_rule lowerQuery filters =
     (case js_match three_words_rx lowerQuery of
        None \<Rightarrow> filters
      | Some m \<Rightarrow> AList.update ''word_count'' ''3'' filters)"

definition exactWords_rule :: "string \<Rightarrow> filters \<Rightarrow> filters" where
  "exactWords_rule lowerQuery filters =
     (case js_match exactWords_rx lowerQuery of
        None \<Rightarrow> filters
      | Some exactWords \<Rightarrow> AList.update ''word_count'' (exactWords ! 1) filters)"

definition longer_rule :: "string \<Rightarrow> filters \<Rightarrow> filters" where
  "longer_rule lowerQuery filters =
     (case js_match longer_rx lowerQuery of
        None \<Rightarrow> filters
      | Some longer \<Rightarrow> AList.update ''min_length'' (toString (parseInt (longer ! 1) + 1)) filters)"

definition shorter_rule :: "string \<Rightarrow> filters \<Rightarrow> filters" where
  "shorter_rule lowerQuery filters =
     (case js_match shorter_rx lowerQuery of
        None \<Rightarrow> filters
      | Some shorter \<Rightarrow> AList.update ''max_length'' (toString (parseInt (shorter ! 1) - 1)) filters)"

definition atLeast_rule :: "string \<Rightarrow> filters \<Rightarrow> filters" where
  "atLeast_rule lowerQuery filters =
     (case js_match atLeast_rx lowerQuery of
        None \<Rightarrow> filters
      | Some atLeast' \<Rightarrow> AList.update ''min_length'' (atLeast' ! 1) filters)"

definition atMost_rule :: "string \<Rightarrow> filters \<Rightarrow> filters" where
  "atMost_rule lowerQuery filters =
     (case js_match atMost_rx lowerQuery of
        None \<Rightarrow> filters
      | Some atMost' \<Rightarrow> AList.update ''max_length'' (atMost' ! 1) filters)"

definition moreThan_rule :: "string \<Rightarrow> filters \<Rightarrow> filters" where
  "moreThan_rule lowerQuery filters =
     (case js_match moreThan_rx lowerQuery of
        None \<Rightarrow> filters
      | Some moreThan \<Rightarrow> AList.update ''min_length'' (toString (parseInt (moreThan ! 1) + 1)) filters)"

definition lessThan_rule :: "string \<Rightarrow> filters \<Rightarrow> filters" where
  "lessThan_rule lowerQuery filters =
     (case js_match lessThan_rx lowerQuery of
        None \<Rightarrow> filters
      | Some lessThan' \<Rightarrow> AList.update ''max_length'' (toString (parseInt (lessThan' ! 1) - 1)) filters)"

definition between_rule :: "string \<Rightarrow> filters \<Rightarrow> filters" where
  "between_rule lowerQuery filters =
     (case js_match between_rx lowerQuery of
        None \<Rightarrow> filters
      | Some between \<Rightarrow>
          AList.update ''max_length'' (between ! 2) (AList.update ''min_length'' (between ! 1) filters))"

definition charMatch_rule :: "string \<Rightarrow> filters \<Rightarrow> filters" where
  "charMatch_rule lowerQuery filters =
     (case js_match charMatch_rx lowerQuery of
        None \<Rightarrow> filters
      | Some charMatch \<Rightarrow> AList.update ''contains_character'' (toLowerCase (charMatch ! 1)) filters)"

definition vowel_rule :: "string \<Rightarrow> filters \<Rightarrow> filters" where
  "vowel_rule lowerQuery filters =
     (case js_match vowel_rx lowerQuery of
        None \<Rightarrow> filters
      | Some m \<Rightarrow> AList.update ''contains_character'' ''a'' filters)"

definition consonant_rule :: "string \<Rightarrow> filters \<Rightarrow> filters" where
  "consonant_rule lowerQuery filters =
     (case js_match consonant_rx lowerQuery of
        None \<Rightarrow> filters
      | Some m \<Rightarrow> AList.update ''contains_character'' ''b'' filters)"

text \<open>\<open>parseNaturalLanguageQuery\<close>: the statements run in the order of the source, from
  the empty object.\<close>

definition parseNaturalLanguageQuery :: "string \<Rightarrow> filters" where
  "parseNaturalLanguageQuery query =
     (let lowerQuery = toLowerCase query in
      fold (\<lambda>rule filters. rule lowerQuery filters)
        [palindrome_rule, one_word_rule, two_words_rule, three_words_rule, exactWords_rule,
         longer_rule, shorter_rule, atLeast_rule, atMost_rule, moreThan_rule, lessThan_rule,
         between_rule, charMatch_rule, vowel_rule, consonant_rule]
        [])"

text \<open>A rule fires on a lower-cased query when the condition of one of the statements holds.\<close>

definition rule_fires :: "string \<Rightarrow> bool" where
  "rule_fires lowerQuery =
     (js_match palindrome_rx lowerQuery \<noteq> None \<or> js_match one_word_rx lowerQuery \<noteq> None
      \<or> js_match two_words_rx lowerQuery \<noteq> None \<or> js_match three_words_rx lowerQuery \<noteq> None
      \<or> js_match exactWords_rx lowerQuery \<noteq> None \<or> js_match longer_rx lowerQuery \<noteq> None
      \<or> js_match shorter_rx lowerQuery \<noteq> None \<or> js_match atLeast_rx lowerQuery \<noteq> None
      \<or> js_match atMost_rx lowerQuery \<noteq> None \<or> js_match moreThan_rx lowerQuery \<noteq> None
      \<or> js_match lessThan_rx lowerQuery \<noteq> None \<or> js_match between_rx lowerQuery \<noteq> None
      \<or> js_match charMatch_rx lowerQuery \<noteq> None \<or> js_match vowel_rx lowerQuery \<noteq> None
      \<or> js_match consonant_rx lowerQuery \<noteq> None)"

text \<open>A string of one or more digits: the decimal notation of a non-negative integer.\<close>

definition is_nat_string :: "string \<Rightarrow> bool" where
  "is_nat_string s = (s \<noteq> [] \<and> filter (\<lambda>c. \<not> isDigit c) s = [])"

section \<open>Requests, errors and the store\<close>

text \<open>
  A value of a request: a field of the JSON body or a parameter of the query string.
  \<open>JUndefined\<close> is a field that is missing. A number is an integer here: the handlers
  look at its type and at whether it is zero only. \<open>truthy\<close> is what \<open>!v\<close> negates,
  and \<open>typeof\<close> is the operator.
\<close>

datatype jsvalue =
    JUndefined
  | JNull
  | JBool bool
  | JNum int
  | JStr string
  | JArr "jsvalue list"
  | JObj "(string \<times> jsvalue) list"

fun truthy :: "jsvalue \<Rightarrow> bool" where
  "truthy JUndefined = False"
| "truthy JNull = False"
| "truthy (JBool b) = b"
| "truthy (JNum n) = (n \<noteq> 0)"
| "truthy (JStr s) = (s \<noteq> [])"
| "truthy (JArr xs) = True"
| "truthy (JObj kvs) = True"

fun typeof :: "jsvalue \<Rightarrow> string" where
  "typeof JUndefined = ''undefined''"
| "typeof JNull = ''object''"
| "typeof (JBool b) = ''boolean''"
| "typeof (JNum n) = ''number''"
| "typeof (JStr s) = ''string''"
| "typeof (JArr xs) = ''object''"
| "typeof (JObj kvs) = ''object''"

text \<open>
  What a handler throws. \<open>TypeError\<close> is the platform's, for a method called on a value
  that has none; \<open>DuplicateEntry\<close> is the database's, for an \<open>INSERT\<close> whose primary key
  is taken.
\<close>

datatype error =
    ValidationError string
  | ConflictError string
  | TypeError string
  | DuplicateEntry string

text \<open>
  A row of the table \<open>strings\<close>, whose primary key is \<open>id\<close>; the store is the list of
  its rows in the order of insertion. The fields are the columns, with \<open>r_\<close> in front.
\<close>

record row =
  r_id :: string
  r_value :: string
  r_length :: nat
  r_is_palindrome :: bool
  r_unique_characters :: nat
  r_word_count :: nat
  r_character_frequency :: "(char \<times> nat) list"
  r_created_at :: string

type_synonym store = "row list"

text \<open>\<open>existingStringByValue\<close>: \<open>SELECT 1 FROM strings WHERE id = ? LIMIT 1\<close> on the hash
  of the value.\<close>

definition existsByValue :: "(string \<Rightarrow> string) \<Rightarrow> store \<Rightarrow> string \<Rightarrow> bool" where
  "existsByValue sha256 db v =
     (let ident = sha256 v;
          rows = take 1 (filter (\<lambda>r. r_id r = ident) db)
      in length rows > 0)"

text \<open>
  \<open>stringData\<close>, the object \<open>createString\<close> passes to the model, and the model's
  \<open>createString\<close> (\<open>stringModel.create\<close>): the \<open>INSERT\<close> fails when a row has the same
  primary key and adds the row, stamped with the current time, otherwise.
\<close>

record stringData =
  d_id :: string
  d_value :: string
  d_length :: nat
  d_is_palindrome :: bool
  d_unique_characters :: nat
  d_word_count :: nat
  d_character_frequency_map :: "(char \<times> nat) list"

definition create :: "string \<Rightarrow> store \<Rightarrow> stringData \<Rightarrow> error + store" where
  "create now db d =
     (if d_id d \<in> set (map r_id db) then Inl (DuplicateEntry (d_id d))
      else Inr (db @ [\<lparr> r_id = d_id d, r_value = d_value d, r_length = d_length d,
                         r_is_palindrome = d_is_palindrome d,
                         r_unique_characters = d_unique_characters d,
                         r_word_count = d_word_count d,
                         r_character_frequency = d_character_frequency_map d,
                         r_created_at = now \<rparr>]))"

section \<open>The create-string endpoint\<close>

text \<open>The middleware \<open>validateStringInput\<close>; \<open>Inr ()\<close> is the call of \<open>next()\<close>.\<close>

fun validateStringInput :: "jsvalue \<Rightarrow> error + unit" where
  \<open>validateStringInput JUndefined = Inl (ValidationError ''Missing "value" field in request body'')\<close>
| \<open>validateStringInput JNull = Inl (ValidationError ''Missing "value" field in request body'')\<close>
| \<open>validateStringInput (JStr v) =
     (if length (trim v) = 0
      then Inl (ValidationError ''String value cannot be empty or only whitespace'')
      else if length v > 10000
      then Inl (ValidationError ''String value too long (max 10000 characters)'')
      else Inr ())\<close>
| \<open>validateStringInput v = Inl (ValidationError ''Invalid data type for "value" (must be string)'')\<close>

text \<open>The body of the 201 response.\<close>

record created =
  c_id :: string
  c_value :: string
  c_properties :: properties
  c_created_at :: string

text \<open>
  The handler \<open>createString\<close> of \<open>string.controllers.js\<close> on the field \<open>value\<close> of the
  body: what it throws or sends, and the store afterwards. \<open>now\<close> is the time of the call.
\<close>

definition createString ::
    "(string \<Rightarrow> string) \<Rightarrow> string \<Rightarrow> store \<Rightarrow> jsvalue \<Rightarrow> (error + created) \<times> store" where
  \<open>createString sha256 now db v =
     (if \<not> truthy v \<or> typeof v \<noteq> ''string''
      then (Inl (ValidationError ''Missing or invalid "value" field''), db)
      else case v of
        JStr s \<Rightarrow>
          (let trimmedValue = trim s;
               exists = existsByValue sha256 db trimmedValue
           in if exists
              then (Inl (ConflictError (''String "'' @ trimmedValue @ ''" already exists'')), db)
              else
                (let properties = analyzeString sha256 trimmedValue;
                     stringData = \<lparr> d_id = sha256_hash properties,
                                     d_value = trimmedValue,
                                     d_length = length_prop properties,
                                     d_is_palindrome = is_palindrome properties,
                                     d_unique_characters = unique_characters properties,
                                     d_word_count = word_count properties,
                                     d_character_frequency_map = character_frequency_map properties \<rparr>
                 in case create now db stringData of
                      Inl e \<Rightarrow> (Inl e, db)
                    | Inr db' \<Rightarrow>
                        (Inr \<lparr> c_id = sha256_hash properties, c_value = trimmedValue,
                               c_properties = properties, c_created_at = now \<rparr>, db')))
      | _ \<Rightarrow> (Inl (ValidationError ''Missing or invalid "value" field''), db))\<close>

text \<open>The route \<open>POST /strings\<close>: the middleware, then the handler.\<close>

definition post_strings ::
    "(string \<Rightarrow> string) \<Rightarrow> string \<Rightarrow> store \<Rightarrow> jsvalue \<Rightarrow> (error + created) \<times> store" where
  "post_strings sha256 now db v =
     (case validateStringInput v of
        Inl e \<Rightarrow> (Inl e, db)
      | Inr u \<Rightarrow> createString sha256 now db v)"

text \<open>Whether a result is a \<open>ValidationError\<close>.\<close>

fun is_ValidationError :: "error + 'a \<Rightarrow> bool" where
  "is_ValidationError (Inl (ValidationError msg)) = True"
| "is_ValidationError r = False"

text \<open>
  The store's invariant: the primary key is unique, and every row is keyed by the hash of
  its value.
\<close>

definition store_ok :: "(string \<Rightarrow> string) \<Rightarrow> store \<Rightarrow> bool" where
  "store_ok sha256 db = (distinct (map r_id db) \<and> map r_id db = map (\<lambda>r. sha256 (r_value r)) db)"

section \<open>The natural-language endpoint\<close>





section \<open>Properties of the analyzer\<close>


lemmas char_eval = toLowerCase_char_def isUpperCase_def isDigit_def isLetter_def isAlphaNumeric_def
  isWhiteSpace_def isQuote_def char_of_def bit_Suc_0_iff

lemmas str_eval = toLowerCase_def trim_def trimStart_def trimEnd_def remove_all_def split_chars_def
  reverse_def join_def split_ws_def new_Set_def count_char_def

subsection \<open>Characters\<close>






subsection \<open>Reversal\<close>

lemma reverse_rev: "reverse xs = rev xs"
  by (simp add: reverse_def fold_Cons_rev)

lemma join_reverse_split_chars: "join (reverse (split_chars s)) = rev s"
  by (induction s) (simp_all add: join_def reverse_rev split_chars_def)

subsection \<open>Trimming\<close>

lemma trimEnd_Nil: "trimEnd [] = []"
  by (simp add: trimEnd_def)

lemma trimEnd_Cons: "\<not> isWhiteSpace x \<Longrightarrow> trimEnd (x # xs) = x # trimEnd xs"
  by (simp add: trimEnd_def dropWhile_append3)

lemma trimEnd_idem: "trimEnd (trimEnd s) = trimEnd s"
  by (simp add: trimEnd_def)

lemma trim_cases:
  "trim s = [] \<or> (\<exists>x t. \<not> isWhiteSpace x \<and> dropWhile isWhiteSpace s = x # t \<and> trim s = x # trimEnd t)"
proof (cases "dropWhile isWhiteSpace s")
  case Nil
  show ?thesis unfolding trim_def trimStart_def Nil by (simp add: trimEnd_Nil)
next
  case (Cons x t)
  then have "\<not> isWhiteSpace x"
    by (metis hd_dropWhile list.sel(1) list.distinct(1))
  with Cons show ?thesis by (simp add: trim_def trimStart_def trimEnd_Cons)
qed

lemma trim_idem: "trim (trim s) = trim s"
proof -
  consider "trim s = []" | x t where "\<not> isWhiteSpace x" "trim s = x # trimEnd t"
    using trim_cases [of s] by blast
  then show ?thesis
  proof cases
    case 1
    then show ?thesis by (simp add: trim_def trimStart_def trimEnd_Nil)
  next
    case 2
    then show ?thesis by (simp add: trim_def [of "x # trimEnd t"] trimStart_def trimEnd_Cons trimEnd_idem)
  qed
qed

subsection \<open>Sets and frequencies\<close>





lemma map_of_count_char:
  "map_of (count_char x cf) c =
     (if x = c \<and> c \<noteq> CHR '' '' then Some ((case map_of cf c of None \<Rightarrow> 0 | Some n \<Rightarrow> n) + 1)
      else map_of cf c)"
  by (simp add: count_char_def update_conv')

lemma map_of_fold_count_char:
  "map_of (fold count_char s cf) c =
     (if c = CHR '' '' \<or> c \<notin> set s then map_of cf c
      else Some ((case map_of cf c of None \<Rightarrow> 0 | Some n \<Rightarrow> n) + count_list s c))"
proof (induction s arbitrary: cf)
  case Nil
  then show ?case by simp
next
  case (Cons x s)
  show ?case
    by (simp add: Cons.IH map_of_count_char count_list_0_iff split: option.split)
qed

lemma distinct_fold_count_char:
  "distinct (map fst cf) \<Longrightarrow> distinct (map fst (fold count_char s cf))"
  by (induction s arbitrary: cf) (simp_all add: count_char_def distinct_update)



lemma remove_all_filter: "remove_all (\<lambda>c. \<not> C c) s = filter C s"
  by (simp add: remove_all_def)

lemma is_palindrome_analyzeString:
  "is_palindrome (analyzeString sha256 s) =
     (toLowerCase (filter isAlphaNumeric (trim s)) \<noteq> []
      \<and> toLowerCase (filter isAlphaNumeric (trim s)) = rev (toLowerCase (filter isAlphaNumeric (trim s))))"
  by (simp add: analyzeString_def Let_def join_reverse_split_chars remove_all_filter)

text \<open>
  C1. For every input string, \<open>is_palindrome\<close> holds exactly when the cleaned string
  (the input trimmed, its non-alphanumeric characters removed, then lower-cased) is not
  empty and equals its own reverse. The empty string and \<open>"!!!"\<close> are not
  palindromes; \<open>"A man, a plan, a canal: Panama"\<close> is one.
\<close>

theorem analyzeString_palindrome:
  "is_palindrome (analyzeString sha256 s) =
     (toLowerCase (filter isAlphaNumeric (trim s)) \<noteq> []
      \<and> toLowerCase (filter isAlphaNumeric (trim s)) = rev (toLowerCase (filter isAlphaNumeric (trim s))))
   \<and> is_palindrome (analyzeString sha256 '''') = False
   \<and> is_palindrome (analyzeString sha256 ''!!!'') = False
   \<and> is_palindrome (analyzeString sha256 ''A man, a plan, a canal: Panama'') = True"
proof -
  have "is_palindrome (analyzeString sha256 '''') = False"
    by (simp add: is_palindrome_analyzeString char_eval str_eval)
  moreover have "is_palindrome (analyzeString sha256 ''!!!'') = False"
    by (simp add: is_palindrome_analyzeString char_eval str_eval)
  moreover have "is_palindrome (analyzeString sha256 ''A man, a plan, a canal: Panama'') = True"
    by (simp add: is_palindrome_analyzeString char_eval str_eval)
  ultimately show ?thesis
    using is_palindrome_analyzeString [of sha256 s] by blast
qed

text \<open>C1 at two inputs: one that is not a palindrome, and one that is after cleaning.\<close>

theorem analyzeString_palindrome_witness:
  "is_palindrome (analyzeString id ''Was it a car'') = False
   \<and> is_palindrome (analyzeString id '' Racecar! '') = True"
proof -
  have "toLowerCase (filter isAlphaNumeric (trim ''Was it a car'')) = ''wasitacar''"
    by (simp add: char_eval str_eval)
  moreover have "toLowerCase (filter isAlphaNumeric (trim '' Racecar! '')) = ''racecar''"
    by (simp add: char_eval str_eval)
  ultimately show ?thesis
    using analyzeString_palindrome [of id "''Was it a car''"]
      analyzeString_palindrome [of id "'' Racecar! ''"]
    by simp
qed

text \<open>
  C2. The whole result of \<open>analyzeString\<close>, the hash included, depends on the trimmed
  input only: analysing a string and analysing its trimmed form give the same object in
  every field. \<open>analyzeString\<close> is a function of its input (and of the platform's hash),
  so two calls on the same input return equal results. The hashes of \<open>" madam "\<close> and
  \<open>"madam"\<close> are equal.
\<close>

theorem analyzeString_trim:
  "analyzeString sha256 s = analyzeString sha256 (trim s)
   \<and> sha256_hash (analyzeString sha256 '' madam '') = sha256_hash (analyzeString sha256 ''madam'')"
proof -
  have "analyzeString sha256 t = analyzeString sha256 (trim t)" for t
    by (simp add: analyzeString_def trim_idem)
  from this [of s] this [of "'' madam ''"] show ?thesis
    by (simp add: char_eval str_eval)
qed

text \<open>C2 at an input with a tab in front and a line feed behind.\<close>

theorem analyzeString_trim_witness:
  "analyzeString id [CHR 0x09, CHR ''a'', CHR '' '', CHR ''B'', CHR 0x0A] = analyzeString id ''a B''"
proof -
  have "trim [CHR 0x09, CHR ''a'', CHR '' '', CHR ''B'', CHR 0x0A] = ''a B''"
    by (simp add: char_eval str_eval)
  then show ?thesis
    using analyzeString_trim [of id "[CHR 0x09, CHR ''a'', CHR '' '', CHR ''B'', CHR 0x0A]"]
    by simp
qed

text \<open>
  C3. \<open>character_frequency_map\<close> maps every character of the lower-cased trimmed input
  other than the space to the number of its occurrences there, has no other key and none
  twice, and has no entry for the space. Tab and line feed inside the input are keys like
  any other character. For \<open>"a a"\<close> the map is \<open>{"a": 2}\<close>.
\<close>

theorem character_frequency_counts:
  "map_of (character_frequency_map (analyzeString sha256 s)) c =
     (if c \<noteq> CHR '' '' \<and> c \<in> set (toLowerCase (trim s))
      then Some (count_list (toLowerCase (trim s)) c) else None)
   \<and> distinct (map fst (character_frequency_map (analyzeString sha256 s)))
   \<and> map_of (character_frequency_map (analyzeString sha256 s)) CHR '' '' = None
   \<and> character_frequency_map (analyzeString sha256 [CHR ''a'', CHR 0x09, CHR ''b'', CHR 0x0A, CHR ''c''])
       = [(CHR ''a'', 1), (CHR 0x09, 1), (CHR ''b'', 1), (CHR 0x0A, 1), (CHR ''c'', 1)]
   \<and> character_frequency_map (analyzeString sha256 ''a a'') = [(CHR ''a'', 2)]"
proof -
  have "character_frequency_map (analyzeString sha256 [CHR ''a'', CHR 0x09, CHR ''b'', CHR 0x0A, CHR ''c''])
       = [(CHR ''a'', 1), (CHR 0x09, 1), (CHR ''b'', 1), (CHR 0x0A, 1), (CHR ''c'', 1)]"
    by (simp add: analyzeString_def char_eval str_eval)
  moreover have "character_frequency_map (analyzeString sha256 ''a a'') = [(CHR ''a'', 2)]"
    by (simp add: analyzeString_def char_eval str_eval)
  moreover have "distinct (map fst (character_frequency_map (analyzeString sha256 s)))"
    by (simp add: analyzeString_def Let_def distinct_fold_count_char)
  moreover have "map_of (character_frequency_map (analyzeString sha256 s)) c =
     (if c \<noteq> CHR '' '' \<and> c \<in> set (toLowerCase (trim s))
      then Some (count_list (toLowerCase (trim s)) c) else None)" for c
    by (simp add: analyzeString_def Let_def map_of_fold_count_char)
  ultimately show ?thesis by simp
qed

text \<open>C3 at \<open>" Hello World "\<close>: three \<open>l\<close>, no capital \<open>H\<close>, one \<open>h\<close>.\<close>

theorem character_frequency_counts_witness:
  "map_of (character_frequency_map (analyzeString id '' Hello World '')) CHR ''l'' = Some 3
   \<and> map_of (character_frequency_map (analyzeString id '' Hello World '')) CHR ''H'' = None
   \<and> map_of (character_frequency_map (analyzeString id '' Hello World '')) CHR ''h'' = Some 1"
proof -
  have "toLowerCase (trim '' Hello World '') = ''hello world''"
    by (simp add: char_eval str_eval)
  then show ?thesis
    using character_frequency_counts [of id "'' Hello World ''" "CHR ''l''"]
      character_frequency_counts [of id "'' Hello World ''" "CHR ''H''"]
      character_frequency_counts [of id "'' Hello World ''" "CHR ''h''"]
    by simp
qed







section \<open>Properties of the translator\<close>

lemmas rule_defs = palindrome_rule_def one_word_rule_def two_words_rule_def three_words_rule_def
  exactWords_rule_def longer_rule_def shorter_rule_def atLeast_rule_def atMost_rule_def
  moreThan_rule_def lessThan_rule_def between_rule_def charMatch_rule_def vowel_rule_def
  consonant_rule_def

subsection \<open>Matches\<close>

lemma js_match_run:
  "js_match r s = Some m \<Longrightarrow>
     \<exists>t caps rest sts. run r ([], t) = (caps, rest) # sts \<and> m = take (length t - length rest) t # caps"
proof (induction s)
  case Nil
  then obtain caps rest sts where "run r ([], []) = (caps, rest) # sts" "m = [] # caps"
    by (cases "run r ([], [])") (auto split: prod.splits)
  then have "run r ([], []) = (caps, rest) # sts \<and> m = take (length ([] :: string) - length rest) [] # caps"
    by simp
  then show ?case by blast
next
  case (Cons c cs)
  show ?case
  proof (cases "run r ([], c # cs)")
    case Nil
    with Cons show ?thesis by simp
  next
    case (Cons st sts)
    obtain caps rest where st: "st = (caps, rest)" by (cases st)
    from Cons.prems Cons st have "m = take (length (c # cs) - length rest) (c # cs) # caps"
      by simp
    with Cons st show ?thesis by blast
  qed
qed

lemma plus_rests_sound:
  "rest \<in> set (plus_rests C u) \<Longrightarrow> \<exists>d. u = d @ rest \<and> d \<noteq> [] \<and> filter (\<lambda>c. \<not> C c) d = []"
proof (induction u)
  case Nil
  then show ?case by simp
next
  case (Cons c u)
  then have c: "C c" and rest: "rest \<in> set (plus_rests C u) \<or> rest = u"
    by (auto split: if_splits)
  from rest show ?case
  proof
    assume "rest \<in> set (plus_rests C u)"
    then obtain d where "u = d @ rest" "filter (\<lambda>c. \<not> C c) d = []"
      using Cons.IH by blast
    with c have "c # u = (c # d) @ rest \<and> c # d \<noteq> [] \<and> filter (\<lambda>c. \<not> C c) (c # d) = []"
      by simp
    then show ?thesis by blast
  next
    assume "rest = u"
    with c have "c # u = [c] @ rest \<and> [c] \<noteq> [] \<and> filter (\<lambda>c. \<not> C c) [c] = []"
      by simp
    then show ?thesis by blast
  qed
qed

lemma run_Group_Plus:
  assumes "st \<in> set (run (Group (Plus C)) (caps, u))"
  shows "\<exists>d rest. st = (caps @ [d], rest) \<and> u = d @ rest \<and> d \<noteq> [] \<and> filter (\<lambda>c. \<not> C c) d = []"
proof -
  from assms obtain rest where rest: "rest \<in> set (plus_rests C u)"
    and st: "st = (caps @ [take (length u - length rest) u], rest)"
    by auto
  from plus_rests_sound [OF rest] obtain d where d: "u = d @ rest" "d \<noteq> []" "filter (\<lambda>c. \<not> C c) d = []"
    by blast
  then have "take (length u - length rest) u = d" by simp
  with st d show ?thesis by blast
qed


lemma run_Seq:
  "st \<in> set (run (Seq r1 r2) st0) \<Longrightarrow> \<exists>st1. st1 \<in> set (run r1 st0) \<and> st \<in> set (run r2 st1)"
  by auto




subsection \<open>Numbers\<close>






subsection \<open>The statements of the translator\<close>

lemma parseNaturalLanguageQuery_unfold:
  "parseNaturalLanguageQuery q =
     consonant_rule (toLowerCase q) (vowel_rule (toLowerCase q) (charMatch_rule (toLowerCase q)
       (between_rule (toLowerCase q) (lessThan_rule (toLowerCase q) (moreThan_rule (toLowerCase q)
       (atMost_rule (toLowerCase q) (atLeast_rule (toLowerCase q) (shorter_rule (toLowerCase q)
       (longer_rule (toLowerCase q) (exactWords_rule (toLowerCase q) (three_words_rule (toLowerCase q)
       (two_words_rule (toLowerCase q) (one_word_rule (toLowerCase q)
       (palindrome_rule (toLowerCase q) []))))))))))))))"
  by (simp add: parseNaturalLanguageQuery_def Let_def)

lemma map_of_case_update_other:
  "k' \<noteq> k \<Longrightarrow> map_of (case x of None \<Rightarrow> f | Some m \<Rightarrow> AList.update k (g m) f) k' = map_of f k'"
  by (cases x) (simp_all add: update_conv')

lemma map_of_case_update_same:
  "map_of (case x of None \<Rightarrow> f | Some m \<Rightarrow> AList.update k (g m) f) k =
     (case x of None \<Rightarrow> map_of f k | Some m \<Rightarrow> Some (g m))"
  by (cases x) (simp_all add: update_conv')

text \<open>A statement leaves every key but its own as it was.\<close>

lemma map_of_rule_other:
  "k \<noteq> ''is_palindrome'' \<Longrightarrow> map_of (palindrome_rule lq f) k = map_of f k"
  "k \<noteq> ''word_count'' \<Longrightarrow> map_of (one_word_rule lq f) k = map_of f k"
  "k \<noteq> ''word_count'' \<Longrightarrow> map_of (two_words_rule lq f) k = map_of f k"
  "k \<noteq> ''word_count'' \<Longrightarrow> map_of (three_words_rule lq f) k = map_of f k"
  "k \<noteq> ''word_count'' \<Longrightarrow> map_of (exactWords_rule lq f) k = map_of f k"
  "k \<noteq> ''min_length'' \<Longrightarrow> map_of (longer_rule lq f) k = map_of f k"
  "k \<noteq> ''max_length'' \<Longrightarrow> map_of (shorter_rule lq f) k = map_of f k"
  "k \<noteq> ''min_length'' \<Longrightarrow> map_of (atLeast_rule lq f) k = map_of f k"
  "k \<noteq> ''max_length'' \<Longrightarrow> map_of (atMost_rule lq f) k = map_of f k"
  "k \<noteq> ''min_length'' \<Longrightarrow> map_of (moreThan_rule lq f) k = map_of f k"
  "k \<noteq> ''max_length'' \<Longrightarrow> map_of (lessThan_rule lq f) k = map_of f k"
  "k \<noteq> ''contains_character'' \<Longrightarrow> map_of (charMatch_rule lq f) k = map_of f k"
  "k \<noteq> ''contains_character'' \<Longrightarrow> map_of (vowel_rule lq f) k = map_of f k"
  "k \<noteq> ''contains_character'' \<Longrightarrow> map_of (consonant_rule lq f) k = map_of f k"
  by (simp_all add: rule_defs map_of_case_update_other)

lemma map_of_between_rule_other:
  "k \<noteq> ''max_length'' \<Longrightarrow> k \<noteq> ''min_length'' \<Longrightarrow> map_of (between_rule lq f) k = map_of f k"
  by (cases "js_match between_rx lq") (simp_all add: between_rule_def update_conv')

text \<open>What a statement does to its own key.\<close>

lemma map_of_rule_same:
  "map_of (one_word_rule lq f) ''word_count'' =
     (case js_match one_word_rx lq of None \<Rightarrow> map_of f ''word_count'' | Some m \<Rightarrow> Some ''1'')"
  "map_of (two_words_rule lq f) ''word_count'' =
     (case js_match two_words_rx lq of None \<Rightarrow> map_of f ''word_count'' | Some m \<Rightarrow> Some ''2'')"
  "map_of (three_words_rule lq f) ''word_count'' =
     (case js_match three_words_rx lq of None \<Rightarrow> map_of f ''word_count'' | Some m \<Rightarrow> Some ''3'')"
  "map_of (exactWords_rule lq f) ''word_count'' =
     (case js_match exactWords_rx lq of None \<Rightarrow> map_of f ''word_count'' | Some m \<Rightarrow> Some (m ! 1))"
  "map_of (longer_rule lq f) ''min_length'' =
     (case js_match longer_rx lq of None \<Rightarrow> map_of f ''min_length''
      | Some m \<Rightarrow> Some (toString (parseInt (m ! 1) + 1)))"
  "map_of (shorter_rule lq f) ''max_length'' =
     (case js_match shorter_rx lq of None \<Rightarrow> map_of f ''max_length''
      | Some m \<Rightarrow> Some (toString (parseInt (m ! 1) - 1)))"
  "map_of (atLeast_rule lq f) ''min_length'' =
     (case js_match atLeast_rx lq of None \<Rightarrow> map_of f ''min_length'' | Some m \<Rightarrow> Some (m ! 1))"
  "map_of (atMost_rule lq f) ''max_length'' =
     (case js_match atMost_rx lq of None \<Rightarrow> map_of f ''max_length'' | Some m \<Rightarrow> Some (m ! 1))"
  "map_of (moreThan_rule lq f) ''min_length'' =
     (case js_match moreThan_rx lq of None \<Rightarrow> map_of f ''min_length''
      | Some m \<Rightarrow> Some (toString (parseInt (m ! 1) + 1)))"
  "map_of (lessThan_rule lq f) ''max_length'' =
     (case js_match lessThan_rx lq of None \<Rightarrow> map_of f ''max_length''
      | Some m \<Rightarrow> Some (toString (parseInt (m ! 1) - 1)))"
  "map_of (between_rule lq f) ''min_length'' =
     (case js_match between_rx lq of None \<Rightarrow> map_of f ''min_length'' | Some m \<Rightarrow> Some (m ! 1))"
  "map_of (between_rule lq f) ''max_length'' =
     (case js_match between_rx lq of None \<Rightarrow> map_of f ''max_length'' | Some m \<Rightarrow> Some (m ! 2))"
  by (simp_all add: rule_defs map_of_case_update_same update_conv' split: option.split)

lemma word_count_parse:
  "map_of (parseNaturalLanguageQuery q) ''word_count'' =
     (case js_match exactWords_rx (toLowerCase q) of
        Some exactWords \<Rightarrow> Some (exactWords ! 1)
      | None \<Rightarrow>
          if js_match three_words_rx (toLowerCase q) \<noteq> None then Some ''3''
          else if js_match two_words_rx (toLowerCase q) \<noteq> None then Some ''2''
          else if js_match one_word_rx (toLowerCase q) \<noteq> None then Some ''1''
          else None)"
  unfolding parseNaturalLanguageQuery_unfold
  by (simp add: map_of_rule_other map_of_between_rule_other map_of_rule_same split: option.split)



lemma rule_idle:
  "js_match palindrome_rx lq = None \<Longrightarrow> palindrome_rule lq f = f"
  "js_match one_word_rx lq = None \<Longrightarrow> one_word_rule lq f = f"
  "js_match two_words_rx lq = None \<Longrightarrow> two_words_rule lq f = f"
  "js_match three_words_rx lq = None \<Longrightarrow> three_words_rule lq f = f"
  "js_match exactWords_rx lq = None \<Longrightarrow> exactWords_rule lq f = f"
  "js_match longer_rx lq = None \<Longrightarrow> longer_rule lq f = f"
  "js_match shorter_rx lq = None \<Longrightarrow> shorter_rule lq f = f"
  "js_match atLeast_rx lq = None \<Longrightarrow> atLeast_rule lq f = f"
  "js_match atMost_rx lq = None \<Longrightarrow> atMost_rule lq f = f"
  "js_match moreThan_rx lq = None \<Longrightarrow> moreThan_rule lq f = f"
  "js_match lessThan_rx lq = None \<Longrightarrow> lessThan_rule lq f = f"
  "js_match between_rx lq = None \<Longrightarrow> between_rule lq f = f"
  "js_match charMatch_rx lq = None \<Longrightarrow> charMatch_rule lq f = f"
  "js_match vowel_rx lq = None \<Longrightarrow> vowel_rule lq f = f"
  "js_match consonant_rx lq = None \<Longrightarrow> consonant_rule lq f = f"
  by (simp_all add: rule_defs)

lemma no_rule_fires_parse:
  "\<not> rule_fires (toLowerCase q) \<Longrightarrow> parseNaturalLanguageQuery q = []"
  unfolding parseNaturalLanguageQuery_unfold
  by (simp add: rule_fires_def rule_idle)

subsection \<open>Groups\<close>

lemma run_groupless:
  "groupless r \<Longrightarrow> st \<in> set (run r (caps, u)) \<Longrightarrow> fst st = caps"
proof (induction r arbitrary: st caps u)
  case (Seq r1 r2)
  then obtain st1 where st1: "st1 \<in> set (run r1 (caps, u))" and st: "st \<in> set (run r2 st1)"
    by auto
  from Seq.IH(1) [OF _ st1] Seq.prems have "fst st1 = caps" by simp
  with Seq.IH(2) [of st caps "snd st1"] st Seq.prems show ?case
    by (cases st1) simp
qed (auto split: option.splits list.splits if_splits)

lemma js_match_exactWords:
  assumes "js_match exactWords_rx s = Some m"
  shows "\<exists>w d. m = [w, d] \<and> is_nat_string d"
proof -
  let ?tail = "Seqs [Plus isWhiteSpace, Lit ''word'', Opt (Lit ''s'')]"
  from js_match_run [OF assms] obtain t caps rest sts
    where run: "run exactWords_rx ([], t) = (caps, rest) # sts"
      and m: "m = take (length t - length rest) t # caps"
    by blast
  from run have "(caps, rest) \<in> set (run exactWords_rx ([], t))"
    by simp
  moreover have "exactWords_rx = Seq (Group (Plus isDigit)) ?tail"
    by (simp add: exactWords_rx_def)
  ultimately obtain st1 where st1: "st1 \<in> set (run (Group (Plus isDigit)) ([], t))"
    and st: "(caps, rest) \<in> set (run ?tail st1)"
    using run_Seq by metis
  from run_Group_Plus [OF st1] obtain d r1 where d: "st1 = ([d], r1)" "is_nat_string d"
    by (auto simp: is_nat_string_def)
  have "groupless ?tail" by simp
  from run_groupless [OF this, of "(caps, rest)" "[d]" r1] st d have "caps = [d]"
    by simp
  with m d show ?thesis by blast
qed

subsection \<open>Empty filter sets\<close>




subsection \<open>Word count\<close>

text \<open>
  C7. The numeric word-count statement comes after the three phrased ones and writes the
  same key, so its value stands whenever it matches: \<open>word_count\<close> is then the digits
  matched, and only when it does not match is it \<open>3\<close>, \<open>2\<close> or \<open>1\<close> from the last phrased
  statement that matches. On \<open>"single word, 3 words"\<close> the first and the third phrased
  statements match as well as the numeric one, and the result is \<open>{word_count: "3"}\<close>.
\<close>

theorem numeric_word_count_overrides:
  "map_of (parseNaturalLanguageQuery q) ''word_count'' =
     (case js_match exactWords_rx (toLowerCase q) of
        Some exactWords \<Rightarrow> Some (exactWords ! 1)
      | None \<Rightarrow>
          if js_match three_words_rx (toLowerCase q) \<noteq> None then Some ''3''
          else if js_match two_words_rx (toLowerCase q) \<noteq> None then Some ''2''
          else if js_match one_word_rx (toLowerCase q) \<noteq> None then Some ''1''
          else None)
   \<and> (case js_match exactWords_rx (toLowerCase q) of
        Some exactWords \<Rightarrow> length exactWords = 2 \<and> is_nat_string (exactWords ! 1)
      | None \<Rightarrow> True)
   \<and> js_match one_word_rx (toLowerCase ''single word, 3 words'') = Some [''single word'']
   \<and> js_match three_words_rx (toLowerCase ''single word, 3 words'') = Some [''3 words'']
   \<and> js_match exactWords_rx (toLowerCase ''single word, 3 words'') = Some [''3 words'', ''3'']
   \<and> parseNaturalLanguageQuery ''single word, 3 words'' = [(''word_count'', ''3'')]"
proof -
  have "case js_match exactWords_rx (toLowerCase q) of
        Some exactWords \<Rightarrow> length exactWords = 2 \<and> is_nat_string (exactWords ! 1)
      | None \<Rightarrow> True"
    using js_match_exactWords [of "toLowerCase q"] by (auto split: option.split)
  moreover have "js_match one_word_rx (toLowerCase ''single word, 3 words'') = Some [''single word'']"
    by code_simp
  moreover have "js_match three_words_rx (toLowerCase ''single word, 3 words'') = Some [''3 words'']"
    by code_simp
  moreover have "js_match exactWords_rx (toLowerCase ''single word, 3 words'') = Some [''3 words'', ''3'']"
    by code_simp
  moreover have "parseNaturalLanguageQuery ''single word, 3 words'' = [(''word_count'', ''3'')]"
    by code_simp
  ultimately show ?thesis
    using word_count_parse [of q] by blast
qed

text \<open>C7 at \<open>"Two words, or 12  WORDS"\<close>, where the numeric statement overwrites \<open>2\<close>, and at
  \<open>"one word"\<close>, where it does not match.\<close>

theorem numeric_word_count_overrides_witness:
  "map_of (parseNaturalLanguageQuery ''Two words, or 12  WORDS'') ''word_count'' = Some ''12''
   \<and> map_of (parseNaturalLanguageQuery ''one word'') ''word_count'' = Some ''1''"
proof -
  have a: "js_match exactWords_rx (toLowerCase ''Two words, or 12  WORDS'') = Some [''12  words'', ''12'']"
    by code_simp
  have b: "js_match exactWords_rx (toLowerCase ''one word'') = None"
    "js_match three_words_rx (toLowerCase ''one word'') = None"
    "js_match two_words_rx (toLowerCase ''one word'') = None"
    "js_match one_word_rx (toLowerCase ''one word'') = Some [''one word'']"
    by code_simp+
  from numeric_word_count_overrides [of "''Two words, or 12  WORDS''"]
  have "map_of (parseNaturalLanguageQuery ''Two words, or 12  WORDS'') ''word_count'' = Some ''12''"
    unfolding a by simp
  moreover from numeric_word_count_overrides [of "''one word''"]
  have "map_of (parseNaturalLanguageQuery ''one word'') ''word_count'' = Some ''1''"
    unfolding b by simp
  ultimately show ?thesis by blast
qed

subsection \<open>Queries no rule matches\<close>






subsection \<open>Length bounds\<close>







section \<open>Properties of the create-string endpoint\<close>

lemma length_trim_le: "length (trim s) \<le> length s"
proof -
  have "length (trimEnd t) \<le> length t" for t
    using length_dropWhile_le [of isWhiteSpace "rev t"] by (simp add: trimEnd_def)
  from this [of "trimStart s"] length_dropWhile_le [of isWhiteSpace s] show ?thesis
    by (simp add: trim_def trimStart_def)
qed

lemma validateStringInput_Inr:
  "(validateStringInput v = Inr ()) = (\<exists>s. v = JStr s \<and> 1 \<le> length (trim s) \<and> length s \<le> 10000)"
  by (cases v) (auto simp: Suc_le_eq)

lemma validateStringInput_Inl:
  "validateStringInput v = Inl e \<Longrightarrow> is_ValidationError (Inl e :: error + created)"
  by (cases v) (auto split: if_splits)

lemma existsByValue_iff: "existsByValue sha256 db x = (sha256 x \<in> set (map r_id db))"
proof -
  have "(0 < length (take 1 xs)) = (xs \<noteq> [])" for xs :: "row list"
    by (cases xs) simp_all
  then show ?thesis
    by (force simp: existsByValue_def Let_def filter_empty_conv)
qed

lemma sha256_hash_analyzeString: "sha256_hash (analyzeString sha256 (trim s)) = sha256 (trim s)"
  by (simp add: analyzeString_def Let_def trim_idem)

text \<open>The three outcomes of the handler on a non-empty string.\<close>

lemma createString_JStr:
  assumes "s \<noteq> []"
  shows "createString sha256 now db (JStr s) =
     (if existsByValue sha256 db (trim s)
      then (Inl (ConflictError (''String '' @ [CHR 0x22] @ trim s @ [CHR 0x22] @ '' already exists'')), db)
      else (Inr \<lparr> c_id = sha256 (trim s), c_value = trim s,
                  c_properties = analyzeString sha256 (trim s), c_created_at = now \<rparr>,
            db @ [\<lparr> r_id = sha256 (trim s), r_value = trim s,
                     r_length = length_prop (analyzeString sha256 (trim s)),
                     r_is_palindrome = is_palindrome (analyzeString sha256 (trim s)),
                     r_unique_characters = unique_characters (analyzeString sha256 (trim s)),
                     r_word_count = word_count (analyzeString sha256 (trim s)),
                     r_character_frequency = character_frequency_map (analyzeString sha256 (trim s)),
                     r_created_at = now \<rparr>]))"
  using assms
  by (simp add: createString_def Let_def create_def sha256_hash_analyzeString existsByValue_iff)

lemma createString_other:
  \<open>v = JStr [] \<or> (\<forall>s. v \<noteq> JStr s) \<Longrightarrow>
     createString sha256 now db v = (Inl (ValidationError ''Missing or invalid "value" field''), db)\<close>
  by (cases v) (auto simp: createString_def)

lemma createString_error_keeps_store:
  "isl (fst (createString sha256 now db v)) \<Longrightarrow> snd (createString sha256 now db v) = db"
proof (cases "v = JStr [] \<or> (\<forall>s. v \<noteq> JStr s)")
  case True
  then show ?thesis by (simp add: createString_other)
next
  case False
  then obtain s where "v = JStr s" "s \<noteq> []" by auto
  moreover assume "isl (fst (createString sha256 now db v))"
  ultimately show ?thesis
    by (simp add: createString_JStr split: if_splits)
qed

lemma store_ok_values: "store_ok sha256 db \<Longrightarrow> distinct (map r_value db)"
proof -
  assume "store_ok sha256 db"
  then have d: "distinct (map r_id db)" and eq: "map r_id db = map (\<lambda>r. sha256 (r_value r)) db"
    unfolding store_ok_def by blast+
  from d have "distinct (map (\<lambda>r. sha256 (r_value r)) db)"
    unfolding eq .
  then have "distinct (map sha256 (map r_value db))"
    by (simp add: comp_def)
  then show ?thesis by (rule distinct_map [THEN iffD1, THEN conjunct1])
qed

lemma createString_store_ok:
  assumes "store_ok sha256 db"
  shows "store_ok sha256 (snd (createString sha256 now db v))"
proof (cases "v = JStr [] \<or> (\<forall>s. v \<noteq> JStr s)")
  case True
  with assms show ?thesis by (simp add: createString_other)
next
  case False
  then obtain s where "v = JStr s" "s \<noteq> []" by auto
  with assms show ?thesis
    by (auto simp: createString_JStr existsByValue_iff store_ok_def)
qed

text \<open>
  C9. When the store has a row whose key is the hash of the trimmed value, the handler
  throws \<open>ConflictError\<close> and the store is the one it was given: no row is added and none
  is changed. Whatever the handler throws, the store is unchanged. A store whose keys are
  unique and are the hashes of its values stays so after any call, and so holds every
  value at most once.
\<close>

theorem createString_conflict:
  "(s \<noteq> [] \<and> existsByValue sha256 db (trim s) \<longrightarrow>
      createString sha256 now db (JStr s) =
        (Inl (ConflictError (''String '' @ [CHR 0x22] @ trim s @ [CHR 0x22] @ '' already exists'')), db)
      \<and> post_strings sha256 now db (JStr s) = (fst (post_strings sha256 now db (JStr s)), db))
   \<and> (isl (fst (createString sha256 now db v)) \<longrightarrow> snd (createString sha256 now db v) = db)
   \<and> (store_ok sha256 db \<longrightarrow>
        store_ok sha256 (snd (createString sha256 now db v))
        \<and> distinct (map r_value (snd (createString sha256 now db v))))"
proof -
  have "post_strings sha256 now db (JStr s) = (fst (post_strings sha256 now db (JStr s)), db)"
    if "s \<noteq> []" "existsByValue sha256 db (trim s)"
    using that by (simp add: post_strings_def createString_JStr split: sum.split)
  moreover have "createString sha256 now db (JStr s) =
        (Inl (ConflictError (''String '' @ [CHR 0x22] @ trim s @ [CHR 0x22] @ '' already exists'')), db)"
    if "s \<noteq> []" "existsByValue sha256 db (trim s)"
    using that by (simp add: createString_JStr)
  moreover have "distinct (map r_value (snd (createString sha256 now db v)))" if "store_ok sha256 db"
    using createString_store_ok [OF that, of now v] by (rule store_ok_values)
  ultimately show ?thesis
    using createString_error_keeps_store [of sha256 now db v] createString_store_ok [of sha256 db now v]
    by blast
qed

text \<open>C9 on the store that holds \<open>"madam"\<close>: submitting \<open>" madam "\<close> is a conflict and the
  store still has its one row.\<close>

theorem createString_conflict_witness:
  \<open>store_ok id (snd (createString id ''t0'' [] (JStr ''madam'')))
   \<and> map r_value (snd (createString id ''t0'' [] (JStr ''madam''))) = [''madam'']
   \<and> createString id ''t1'' (snd (createString id ''t0'' [] (JStr ''madam''))) (JStr '' madam '')
       = (Inl (ConflictError ''String "madam" already exists''),
          snd (createString id ''t0'' [] (JStr ''madam'')))\<close>
proof -
  let ?db = "snd (createString id ''t0'' [] (JStr ''madam''))"
  have t: "trim ''madam'' = ''madam''" "trim '' madam '' = ''madam''"
    by (simp_all add: char_eval str_eval)
  have db: "map r_value ?db = [''madam'']" "map r_id ?db = [''madam'']"
    by (simp_all add: createString_JStr existsByValue_iff t)
  have ex: "existsByValue id ?db (trim '' madam '')"
    by (simp add: existsByValue_iff db t)
  have ok0: "store_ok id []" by (simp add: store_ok_def)
  from createString_conflict [of "'' madam ''" id ?db "''t1''" "JStr ''madam''"] ex
  have "createString id ''t1'' ?db (JStr '' madam '')
       = (Inl (ConflictError (''String '' @ [CHR 0x22] @ trim '' madam '' @ [CHR 0x22] @ '' already exists'')), ?db)"
    by simp
  moreover from createString_conflict [of "'' madam ''" id "[]" "''t0''" "JStr ''madam''"] ok0
  have "store_ok id ?db" by simp
  ultimately show ?thesis
    using db by (simp add: t)
qed

text \<open>
  C6. The route accepts the body's \<open>value\<close>, that is, throws no \<open>ValidationError\<close>,
  exactly when it is a string that is not empty after trimming and has at most 10000
  characters before trimming. On every other value (missing, not a string, empty after
  trimming, longer than 10000 characters after trimming) the middleware throws a
  \<open>ValidationError\<close>, the handler does not run and the store is unchanged.
\<close>

theorem post_strings_accepts:
  "(\<not> is_ValidationError (fst (post_strings sha256 now db v)))
     = (\<exists>s. v = JStr s \<and> 1 \<le> length (trim s) \<and> length s \<le> 10000)
   \<and> (is_ValidationError (fst (post_strings sha256 now db v)) \<longrightarrow>
        (\<exists>e. validateStringInput v = Inl e \<and> post_strings sha256 now db v = (Inl e, db)))
   \<and> (v = JUndefined \<or> v = JNull \<or> (\<forall>s. v \<noteq> JStr s)
        \<or> (\<exists>s. v = JStr s \<and> (length (trim s) = 0 \<or> 10000 < length (trim s)))
      \<longrightarrow> is_ValidationError (fst (post_strings sha256 now db v)))"
proof -
  have rejected: "is_ValidationError (fst (post_strings sha256 now db v))
      \<and> (\<exists>e. validateStringInput v = Inl e \<and> post_strings sha256 now db v = (Inl e, db))"
    if "validateStringInput v \<noteq> Inr ()"
  proof -
    from that obtain e where e: "validateStringInput v = Inl e"
      by (cases "validateStringInput v") auto
    with validateStringInput_Inl [OF e] show ?thesis
      by (simp add: post_strings_def)
  qed
  have accepted: "\<not> is_ValidationError (fst (post_strings sha256 now db v))"
    if "validateStringInput v = Inr ()"
  proof -
    from that obtain s where s: "v = JStr s" "1 \<le> length (trim s)"
      by (auto simp: validateStringInput_Inr)
    then have "s \<noteq> []" using length_trim_le [of s] by auto
    with that s show ?thesis
      by (simp add: post_strings_def createString_JStr)
  qed
  have iff: "(\<not> is_ValidationError (fst (post_strings sha256 now db v))) = (validateStringInput v = Inr ())"
    using rejected accepted by blast
  have "validateStringInput v \<noteq> Inr ()"
    if "v = JUndefined \<or> v = JNull \<or> (\<forall>s. v \<noteq> JStr s)
        \<or> (\<exists>s. v = JStr s \<and> (length (trim s) = 0 \<or> 10000 < length (trim s)))"
  proof
    assume "validateStringInput v = Inr ()"
    then obtain s where s: "v = JStr s" "1 \<le> length (trim s)" "length s \<le> 10000"
      by (auto simp: validateStringInput_Inr)
    with length_trim_le [of s] that show False by auto
  qed
  with iff rejected show ?thesis
    unfolding validateStringInput_Inr [symmetric] by blast
qed

text \<open>C6 at \<open>" madam "\<close>, which is accepted, and at the number 12345, which is not.\<close>

theorem post_strings_accepts_witness:
  \<open>\<not> is_ValidationError (fst (post_strings id ''t0'' [] (JStr '' madam '')))
   \<and> post_strings id ''t0'' [] (JNum 12345)
       = (Inl (ValidationError ''Invalid data type for "value" (must be string)''), [])\<close>
proof -
  have "trim '' madam '' = ''madam''"
    by (simp add: char_eval str_eval)
  then have "\<exists>s. JStr '' madam '' = JStr s \<and> 1 \<le> length (trim s) \<and> length s \<le> 10000"
    by simp
  with post_strings_accepts [of id "''t0''" "[]" "JStr '' madam ''"]
  have "\<not> is_ValidationError (fst (post_strings id ''t0'' [] (JStr '' madam '')))"
    by blast
  moreover have "\<forall>s. JNum 12345 \<noteq> JStr s" by simp
  with post_strings_accepts [of id "''t0''" "[]" "JNum 12345"]
  have "\<exists>e. validateStringInput (JNum 12345) = Inl e \<and> post_strings id ''t0'' [] (JNum 12345) = (Inl e, [])"
    by blast
  then have \<open>post_strings id ''t0'' [] (JNum 12345)
       = (Inl (ValidationError ''Invalid data type for "value" (must be string)''), [])\<close>
    by simp
  ultimately show ?thesis by blast
qed

text \<open>Against C6 as stated: the letter \<open>a\<close> followed by 10000 spaces has one character
  after trimming, and the route rejects it as too long.\<close>

theorem padded_value_counterexample:
  "length (trim (CHR ''a'' # replicate 10000 CHR '' '')) = 1
   \<and> validateStringInput (JStr (CHR ''a'' # replicate 10000 CHR '' ''))
       = Inl (ValidationError ''String value too long (max 10000 characters)'')
   \<and> post_strings id ''t0'' [] (JStr (CHR ''a'' # replicate 10000 CHR '' ''))
       = (Inl (ValidationError ''String value too long (max 10000 characters)''), [])"
proof -
  have "trimEnd (replicate 10000 CHR '' '') = []"
    by (simp add: trimEnd_def isWhiteSpace_def)
  moreover have "\<not> isWhiteSpace CHR ''a''"
    by (simp add: isWhiteSpace_def)
  ultimately have "trim (CHR ''a'' # replicate 10000 CHR '' '') = ''a''"
    by (simp add: trim_def trimStart_def trimEnd_Cons)
  then show ?thesis
    by (simp add: post_strings_def)
qed

end
